theory Spec2Isabelle
  imports Complex_Main
begin

section \<open>Values, collaborators and calls\<close>

text \<open>
  The instrument layer of Tone.js: \<^verbatim>\<open>Tone.Instrument\<close>, \<^verbatim>\<open>Tone.Monophonic\<close> and
  \<^verbatim>\<open>Tone.DuoSynth\<close>. JavaScript values are dynamically typed: a note is a number or a
  note name, a time is a number, a time descriptor or \<^verbatim>\<open>undefined\<close>, an options argument
  is an object tree. Numbers are modelled as reals; the rounding of IEEE doubles is not
  modelled (the only arithmetic of the three source files is \<^verbatim>\<open>time + portTime\<close> and
  \<^verbatim>\<open>time + duration\<close>).
\<close>

datatype jsval = Undefined | Num real | Str string | Obj "(string \<times> jsval) list"

text \<open>
  Property read \<^verbatim>\<open>o.k\<close>. A key that is absent reads as \<^verbatim>\<open>undefined\<close>, and so does a
  property of a number or a string. (A property read of \<^verbatim>\<open>undefined\<close> itself throws in
  JavaScript; the constructors below only read options after \<^verbatim>\<open>defaultArg\<close> has replaced an
  undefined argument by the defaults object.)
\<close>

fun get :: "jsval \<Rightarrow> string \<Rightarrow> jsval" where
  "get (Obj kvs) k = (case map_of kvs k of Some v \<Rightarrow> v | None \<Rightarrow> Undefined)"
| "get _ k = Undefined"

text \<open>
  Modelled from the spec: \<^verbatim>\<open>Tone.prototype.defaultArg\<close> lives in Tone/core/Tone, which is not
  among the sources. Every option is optional and a missing one takes the default shown in
  the defaults table, also inside the nested configuration of a voice: two objects are
  merged key by key, and anything else is the given value unless it is undefined.
\<close>

fun defaultArg :: "jsval \<Rightarrow> jsval \<Rightarrow> jsval" where
  "defaultArg (Obj given) (Obj fallback) =
     Obj (filter (\<lambda>kv. map_of fallback (fst kv) = None) given @
          map (\<lambda>kv. (fst kv, defaultArg (get (Obj given) (fst kv)) (snd kv))) fallback)"
| "defaultArg Undefined fallback = fallback"
| "defaultArg given fallback = given"

text \<open>
  The objects an instance owns, as the receivers of calls and as the nodes of the signal
  graph: \<^verbatim>\<open>this.output\<close>, \<^verbatim>\<open>this.volume\<close>, \<^verbatim>\<open>this.frequency\<close>, \<^verbatim>\<open>this.harmonicity\<close>,
  \<^verbatim>\<open>this._vibrato\<close> and its \<^verbatim>\<open>frequency\<close>, \<^verbatim>\<open>this._vibratoGain\<close>, \<^verbatim>\<open>this.vibratoAmount\<close>,
  and for each voice the voice itself (its audio output), its \<^verbatim>\<open>frequency\<close> and \<^verbatim>\<open>detune\<close>
  inputs, its \<^verbatim>\<open>envelope\<close> and its \<^verbatim>\<open>filterEnvelope\<close>.
\<close>

datatype voice = Voice0 | Voice1

datatype node =
    Output | Volume | Frequency | Harmonicity
  | Vibrato | VibratoFrequency | VibratoGain | VibratoAmount
  | Voice voice | VoiceFrequency voice | VoiceDetune voice
  | VoiceEnvelope voice | VoiceFilterEnvelope voice

text \<open>
  The voices, their envelopes and the scheduled parameters are collaborators whose code is
  not part of the three files. A call on one of them is recorded with its receiver, its
  method and the list of arguments actually passed, in the order the calls are made: that
  record is what an instrument does to the outside.
\<close>

datatype meth =
    TriggerAttack | TriggerRelease
  | SetValueAtTime | ExponentialRampToValueAtTime
  | Start | Dispose | Disconnect

type_synonym call = "node \<times> meth \<times> jsval list"

datatype units = Type_Default | Type_Decibels | Type_Gain | Type_Frequency | Type_Positive

text \<open>
  A \<^verbatim>\<open>Tone.Signal\<close> (and a \<^verbatim>\<open>Tone.Multiply\<close>, which carries a value and units as well) as far
  as the three files read and write it: the property \<^verbatim>\<open>value\<close> and the units.
\<close>

record signal =
  sig_value :: jsval
  units :: units

text \<open>A voice, as far as \<^verbatim>\<open>Tone.DuoSynth\<close> writes it: \<^verbatim>\<open>voice.volume\<close>.\<close>

record monosynth =
  voice_volume :: signal

record lfo =
  lfo_frequency :: signal
  lfo_min :: real
  lfo_max :: real

text \<open>
  What the code takes from outside the three files: the reading of the rendering clock, the
  parsing of a time descriptor (given the clock), JavaScript's conversion of a string to a
  number (\<open>None\<close> is NaN), and the constructor \<^verbatim>\<open>Tone.MonoSynth\<close>.
\<close>

record ctx =
  now :: real
  parseTime :: "real \<Rightarrow> string \<Rightarrow> real"
  toNumber :: "string \<Rightarrow> real option"
  MonoSynth :: "jsval \<Rightarrow> monosynth"

text \<open>
  Modelled from the spec: \<^verbatim>\<open>Tone.prototype.toSeconds\<close> (Tone/core/Tone, not among the
  sources) resolves a time to absolute seconds; the default is "now", resolved through the
  clock. A number is already in seconds.
\<close>

definition toSeconds :: "ctx \<Rightarrow> jsval \<Rightarrow> real" where
  "toSeconds c time =
     (case time of Num x \<Rightarrow> x | Str s \<Rightarrow> parseTime c (now c) s | _ \<Rightarrow> now c)"

text \<open>
  JavaScript's \<^verbatim>\<open>x > 0\<close>: both sides are converted to numbers, and a comparison with NaN
  (from \<^verbatim>\<open>undefined\<close>, an object or a string that is no number) is false.
\<close>

definition gt_zero :: "ctx \<Rightarrow> jsval \<Rightarrow> bool" where
  "gt_zero c v =
     (case v of Num x \<Rightarrow> 0 < x
      | Str s \<Rightarrow> (case toNumber c s of Some x \<Rightarrow> 0 < x | None \<Rightarrow> False)
      | _ \<Rightarrow> False)"

section \<open>The instance\<close>

text \<open>
  One record for a \<^verbatim>\<open>Tone.DuoSynth\<close> instance, with the fields of its three layers. A field
  that holds an object is \<open>None\<close> when it is null or not yet assigned. The private fields
  \<^verbatim>\<open>_vibrato\<close>, \<^verbatim>\<open>_vibratoGain\<close> and \<^verbatim>\<open>_vibratoDelay\<close> are written with the prefix \<open>p_\<close>,
  and \<^verbatim>\<open>this.output\<close>, a gain stage, is the field \<open>output_gain\<close>.
  \<^verbatim>\<open>vibratoRate\<close> is a second reference to the frequency of \<^verbatim>\<open>_vibrato\<close>, not a copy, so the
  field holds the node it refers to. \<open>readOnly\<close> lists the properties made read-only,
  \<open>graph\<close> the connections made between nodes, and \<open>trace\<close> the calls made on the
  collaborators so far.
\<close>

record duosynth =
  output_gain :: "node option"
  volume :: "signal option"
  portamento :: jsval
  voice0 :: "monosynth option"
  voice1 :: "monosynth option"
  p_vibrato :: "lfo option"
  vibratoRate :: "node option"
  p_vibratoGain :: "node option"
  vibratoAmount :: "signal option"
  p_vibratoDelay :: jsval
  frequency :: "signal option"
  harmonicity :: "signal option"
  readOnly :: "string list"
  graph :: "(node \<times> node) list"
  trace :: "call list"

datatype error = TypeError

definition and_then :: "error + 'a \<Rightarrow> ('a \<Rightarrow> error + 'b) \<Rightarrow> error + 'b" where
  "and_then m f = (case m of Inl e \<Rightarrow> Inl e | Inr x \<Rightarrow> f x)"

text \<open>What a call left behind, seen through \<open>h\<close>; an error stays the error.\<close>

definition on_result :: "('a \<Rightarrow> 'b) \<Rightarrow> error + 'a \<Rightarrow> error + 'b" where
  "on_result h m = (case m of Inl e \<Rightarrow> Inl e | Inr x \<Rightarrow> Inr (h x))"

text \<open>
  A method call \<^verbatim>\<open>this.field.method(args)\<close>: a TypeError when the field is null, and
  otherwise the call is made.
\<close>

definition invoke :: "'a option \<Rightarrow> call \<Rightarrow> duosynth \<Rightarrow> error + duosynth" where
  "invoke field cl this =
     (case field of None \<Rightarrow> Inl TypeError
      | Some _ \<Rightarrow> Inr (this\<lparr>trace := trace this @ [cl]\<rparr>))"

text \<open>
  Modelled from the spec: \<^verbatim>\<open>connect\<close>, \<^verbatim>\<open>chain\<close>, \<^verbatim>\<open>fan\<close> and \<^verbatim>\<open>disconnect\<close> of Tone/core/Tone
  are not among the sources. \<^verbatim>\<open>a.connect(b)\<close> adds the edge from \<open>a\<close> to \<open>b\<close>;
  \<^verbatim>\<open>a.chain(b, c)\<close> connects \<open>a\<close> to \<open>b\<close> and \<open>b\<close> to \<open>c\<close>; \<^verbatim>\<open>a.fan(b, c)\<close> connects \<open>a\<close> to
  each of \<open>b\<close> and \<open>c\<close>; \<^verbatim>\<open>a.disconnect()\<close> removes the edges that leave \<open>a\<close>.
\<close>

definition connect :: "node \<Rightarrow> node \<Rightarrow> (node \<times> node) list \<Rightarrow> (node \<times> node) list" where
  "connect a b g = g @ [(a, b)]"

fun chain_to :: "node \<Rightarrow> node list \<Rightarrow> (node \<times> node) list \<Rightarrow> (node \<times> node) list" where
  "chain_to a [] g = g"
| "chain_to a (b # bs) g = chain_to b bs (connect a b g)"

fun fan :: "node \<Rightarrow> node list \<Rightarrow> (node \<times> node) list \<Rightarrow> (node \<times> node) list" where
  "fan a [] g = g"
| "fan a (b # bs) g = fan a bs (connect a b g)"

definition disconnect :: "node \<Rightarrow> (node \<times> node) list \<Rightarrow> (node \<times> node) list" where
  "disconnect a g = filter (\<lambda>e. fst e \<noteq> a) g"

text \<open>
  Modelled from the spec: \<^verbatim>\<open>_readOnly\<close> and \<^verbatim>\<open>_writable\<close> of Tone/core/Tone are not among the
  sources. The binding of a read-only property cannot be reassigned; the files are in strict
  mode, where such an assignment is a TypeError.
\<close>

definition p_readOnly :: "string list \<Rightarrow> duosynth \<Rightarrow> duosynth" where
  "p_readOnly names this = this\<lparr>readOnly := readOnly this @ names\<rparr>"

definition p_writable :: "string list \<Rightarrow> duosynth \<Rightarrow> duosynth" where
  "p_writable names this = this\<lparr>readOnly := filter (\<lambda>n. n \<notin> set names) (readOnly this)\<rparr>"

definition assign :: "string \<Rightarrow> (duosynth \<Rightarrow> duosynth) \<Rightarrow> duosynth \<Rightarrow> error + duosynth" where
  "assign name upd this = (if name \<in> set (readOnly this) then Inl TypeError else Inr (upd this))"

section \<open>Tone.Instrument\<close>

text \<open>A new object, before any constructor has assigned a field.\<close>

definition blank :: duosynth where
  "blank = \<lparr>output_gain = None, volume = None, portamento = Undefined, voice0 = None, voice1 = None,
            p_vibrato = None, vibratoRate = None, p_vibratoGain = None, vibratoAmount = None,
            p_vibratoDelay = Undefined, frequency = None, harmonicity = None,
            readOnly = [], graph = [], trace = []\<rparr>"

text \<open>
  \<^verbatim>\<open>
  Tone.Instrument = function(){
      this.output = this.context.createGain();
      this.volume = new Tone.Signal(this.output.gain, Tone.Type.Decibels);
      this._readOnly(["volume"]);
  };
  Tone.Instrument.defaults = { "volume" : 0 };
  \<close>
  The constructor takes no options. The volume is a signal over the gain of the new output
  stage; a new gain stage has unit gain, which is the 0 decibels of the defaults table.
\<close>

definition Instrument_defaults :: jsval where
  "Instrument_defaults = Obj [(''volume'', Num 0)]"

definition Instrument :: "duosynth \<Rightarrow> duosynth" where
  "Instrument this =
     (let this = this\<lparr>output_gain := Some Output\<rparr>;
          this = this\<lparr>volume := Some \<lparr>sig_value = Num 0, units = Type_Decibels\<rparr>\<rparr>
      in p_readOnly [''volume''] this)"

section \<open>Tone.Monophonic\<close>

text \<open>
  \<^verbatim>\<open>
  Tone.Monophonic = function(options){
      Tone.Instrument.call(this);
      options = this.defaultArg(options, Tone.Monophonic.defaults);
      this.portamento = options.portamento;
  };
  Tone.Monophonic.defaults = { "portamento" : 0 };
  \<close>
\<close>

definition Monophonic_defaults :: jsval where
  "Monophonic_defaults = Obj [(''portamento'', Num 0)]"

definition Monophonic :: "jsval \<Rightarrow> duosynth \<Rightarrow> duosynth" where
  "Monophonic options this =
     (let this = Instrument this;
          options = defaultArg options Monophonic_defaults
      in this\<lparr>portamento := get options ''portamento''\<rparr>)"

text \<open>
  \<^verbatim>\<open>
  Tone.Monophonic.prototype.setNote = function(note, time){
      time = this.toSeconds(time);
      if (this.portamento > 0){
          var currentNote = this.frequency.value;
          this.frequency.setValueAtTime(currentNote, time);
          var portTime = this.toSeconds(this.portamento);
          this.frequency.exponentialRampToValueAtTime(note, time + portTime);
      } else {
          this.frequency.setValueAtTime(note, time);
      }
      return this;
  };
  \<close>
  Returning \<^verbatim>\<open>this\<close> is returning the instance as the call has left it.
\<close>

definition setNote :: "ctx \<Rightarrow> jsval \<Rightarrow> jsval \<Rightarrow> duosynth \<Rightarrow> error + duosynth" where
  "setNote c note time this =
     (let time = toSeconds c time in
      if gt_zero c (portamento this) then
        (case frequency this of None \<Rightarrow> Inl TypeError
         | Some f \<Rightarrow>
            (let currentNote = sig_value f in
             and_then (invoke (frequency this)
                         (Frequency, SetValueAtTime, [currentNote, Num time]) this)
               (\<lambda>this.
                  (let portTime = toSeconds c (portamento this) in
                   invoke (frequency this)
                     (Frequency, ExponentialRampToValueAtTime, [note, Num (time + portTime)])
                     this))))
      else invoke (frequency this) (Frequency, SetValueAtTime, [note, Num time]) this)"

section \<open>Tone.DuoSynth\<close>

text \<open>The defaults table of \<^verbatim>\<open>Tone.DuoSynth.defaults\<close>, as written in the source.\<close>

definition DuoSynth_defaults :: jsval where
  "DuoSynth_defaults = Obj
     [(''vibratoAmount'', Num 0.5),
      (''vibratoRate'', Num 5),
      (''vibratoDelay'', Num 1),
      (''harmonicity'', Num 1.5),
      (''voice0'', Obj
         [(''volume'', Num (- 10)),
          (''portamento'', Num 0),
          (''oscillator'', Obj [(''type'', Str ''sine'')]),
          (''filterEnvelope'', Obj
             [(''attack'', Num 0.01), (''decay'', Num 0.0), (''sustain'', Num 1),
              (''release'', Num 0.5)]),
          (''envelope'', Obj
             [(''attack'', Num 0.01), (''decay'', Num 0.0), (''sustain'', Num 1),
              (''release'', Num 0.5)])]),
      (''voice1'', Obj
         [(''volume'', Num (- 10)),
          (''portamento'', Num 0),
          (''oscillator'', Obj [(''type'', Str ''sine'')]),
          (''filterEnvelope'', Obj
             [(''attack'', Num 0.01), (''decay'', Num 0.0), (''sustain'', Num 1),
              (''release'', Num 0.5)]),
          (''envelope'', Obj
             [(''attack'', Num 0.01), (''decay'', Num 0.0), (''sustain'', Num 1),
              (''release'', Num 0.5)])])]"

text \<open>
  Modelled from the spec: \<^verbatim>\<open>Tone.LFO\<close> is not among the sources; the vibrato source is built
  from its rate and the two ends of its output range.
\<close>

definition LFO :: "jsval \<Rightarrow> real \<Rightarrow> real \<Rightarrow> lfo" where
  "LFO rate mn mx =
     \<lparr>lfo_frequency = \<lparr>sig_value = rate, units = Type_Frequency\<rparr>, lfo_min = mn, lfo_max = mx\<rparr>"

text \<open>
  The constructor, statement by statement (lines 18 to 97 of DuoSynth.js):
  \<^verbatim>\<open>
  options = this.defaultArg(options, Tone.DuoSynth.defaults);
  Tone.Monophonic.call(this, options);
  this.voice0 = new Tone.MonoSynth(options.voice0);
  this.voice0.volume.value = -10;
  this.voice1 = new Tone.MonoSynth(options.voice1);
  this.voice1.volume.value = -10;
  this._vibrato = new Tone.LFO(options.vibratoRate, -50, 50);
  this._vibrato.start();
  this.vibratoRate = this._vibrato.frequency;
  this._vibratoGain = this.context.createGain();
  this.vibratoAmount = new Tone.Signal(this._vibratoGain.gain, Tone.Type.Gain);
  this.vibratoAmount.value = options.vibratoAmount;
  this._vibratoDelay = this.toSeconds(options.vibratoDelay);
  this.frequency = new Tone.Signal(440, Tone.Type.Frequency);
  this.harmonicity = new Tone.Multiply(options.harmonicity);
  this.harmonicity.units = Tone.Type.Positive;
  this.frequency.connect(this.voice0.frequency);
  this.frequency.chain(this.harmonicity, this.voice1.frequency);
  this._vibrato.connect(this._vibratoGain);
  this._vibratoGain.fan(this.voice0.detune, this.voice1.detune);
  this.voice0.connect(this.output);
  this.voice1.connect(this.output);
  this._readOnly(["voice0", "voice1", "frequency", "vibratoAmount", "vibratoRate"]);
  \<close>
\<close>

definition set_volume_value :: "jsval \<Rightarrow> monosynth \<Rightarrow> monosynth" where
  "set_volume_value v m = m\<lparr>voice_volume := (voice_volume m)\<lparr>sig_value := v\<rparr>\<rparr>"

definition DuoSynth :: "ctx \<Rightarrow> jsval \<Rightarrow> duosynth" where
  "DuoSynth c options =
     (let options = defaultArg options DuoSynth_defaults;
          this = Monophonic options blank;
          this = this\<lparr>voice0 := Some (MonoSynth c (get options ''voice0''))\<rparr>;
          this = this\<lparr>voice0 := map_option (set_volume_value (Num (- 10))) (voice0 this)\<rparr>;
          this = this\<lparr>voice1 := Some (MonoSynth c (get options ''voice1''))\<rparr>;
          this = this\<lparr>voice1 := map_option (set_volume_value (Num (- 10))) (voice1 this)\<rparr>;
          this = this\<lparr>p_vibrato := Some (LFO (get options ''vibratoRate'') (- 50) 50)\<rparr>;
          this = this\<lparr>trace := trace this @ [(Vibrato, Start, [])]\<rparr>;
          this = this\<lparr>vibratoRate := Some VibratoFrequency\<rparr>;
          this = this\<lparr>p_vibratoGain := Some VibratoGain\<rparr>;
          this = this\<lparr>vibratoAmount := Some \<lparr>sig_value = Num 1, units = Type_Gain\<rparr>\<rparr>;
          this = this\<lparr>vibratoAmount :=
                   map_option (\<lambda>s. s\<lparr>sig_value := get options ''vibratoAmount''\<rparr>)
                     (vibratoAmount this)\<rparr>;
          this = this\<lparr>p_vibratoDelay := Num (toSeconds c (get options ''vibratoDelay''))\<rparr>;
          this = this\<lparr>frequency := Some \<lparr>sig_value = Num 440, units = Type_Frequency\<rparr>\<rparr>;
          this = this\<lparr>harmonicity :=
                   Some \<lparr>sig_value = get options ''harmonicity'', units = Type_Default\<rparr>\<rparr>;
          this = this\<lparr>harmonicity :=
                   map_option (\<lambda>s. s\<lparr>units := Type_Positive\<rparr>) (harmonicity this)\<rparr>;
          this = this\<lparr>graph := connect Frequency (VoiceFrequency Voice0) (graph this)\<rparr>;
          this = this\<lparr>graph :=
                   chain_to Frequency [Harmonicity, VoiceFrequency Voice1] (graph this)\<rparr>;
          this = this\<lparr>graph := connect Vibrato VibratoGain (graph this)\<rparr>;
          this = this\<lparr>graph :=
                   fan VibratoGain [VoiceDetune Voice0, VoiceDetune Voice1] (graph this)\<rparr>;
          this = this\<lparr>graph := connect (Voice Voice0) Output (graph this)\<rparr>;
          this = this\<lparr>graph := connect (Voice Voice1) Output (graph this)\<rparr>
      in p_readOnly [''voice0'', ''voice1'', ''frequency'', ''vibratoAmount'', ''vibratoRate'']
           this)"

text \<open>
  \<^verbatim>\<open>
  Tone.DuoSynth.prototype._triggerEnvelopeAttack = function(time, velocity){
      time = this.toSeconds(time);
      this.voice0.envelope.triggerAttack(time, velocity);
      this.voice1.envelope.triggerAttack(time, velocity);
      this.voice0.filterEnvelope.triggerAttack(time);
      this.voice1.filterEnvelope.triggerAttack(time);
      return this;
  };
  \<close>
\<close>

definition p_triggerEnvelopeAttack ::
  "ctx \<Rightarrow> jsval \<Rightarrow> jsval \<Rightarrow> duosynth \<Rightarrow> error + duosynth" where
  "p_triggerEnvelopeAttack c time velocity this =
     (let time = toSeconds c time in
      and_then (invoke (voice0 this)
                  (VoiceEnvelope Voice0, TriggerAttack, [Num time, velocity]) this) (\<lambda>this.
      and_then (invoke (voice1 this)
                  (VoiceEnvelope Voice1, TriggerAttack, [Num time, velocity]) this) (\<lambda>this.
      and_then (invoke (voice0 this)
                  (VoiceFilterEnvelope Voice0, TriggerAttack, [Num time]) this) (\<lambda>this.
      invoke (voice1 this) (VoiceFilterEnvelope Voice1, TriggerAttack, [Num time]) this))))"

text \<open>
  \<^verbatim>\<open>
  Tone.DuoSynth.prototype._triggerEnvelopeRelease = function(time){
      this.voice0.triggerRelease(time);
      this.voice1.triggerRelease(time);
      return this;
  };
  \<close>
\<close>

definition p_triggerEnvelopeRelease :: "ctx \<Rightarrow> jsval \<Rightarrow> duosynth \<Rightarrow> error + duosynth" where
  "p_triggerEnvelopeRelease c time this =
     and_then (invoke (voice0 this) (Voice Voice0, TriggerRelease, [time]) this) (\<lambda>this.
     invoke (voice1 this) (Voice Voice1, TriggerRelease, [time]) this)"

text \<open>
  The methods a DuoSynth inherits. \<^verbatim>\<open>this._triggerEnvelopeAttack\<close> and
  \<^verbatim>\<open>this._triggerEnvelopeRelease\<close> are the overrides of DuoSynth above (the ones of
  Monophonic do nothing), and \<^verbatim>\<open>this.triggerAttack\<close> and \<^verbatim>\<open>this.triggerRelease\<close> in
  \<^verbatim>\<open>Tone.Instrument.prototype.triggerAttackRelease\<close> are those of Monophonic.
  \<^verbatim>\<open>
  Tone.Monophonic.prototype.triggerAttack = function(note, time, velocity) {
      time = this.toSeconds(time);
      this._triggerEnvelopeAttack(time, velocity);
      this.setNote(note, time);
      return this;
  };
  Tone.Monophonic.prototype.triggerRelease = function(time){
      this._triggerEnvelopeRelease(time);
      return this;
  };
  Tone.Instrument.prototype.triggerAttackRelease = function(note, duration, time, velocity){
      time = this.toSeconds(time);
      duration = this.toSeconds(duration);
      this.triggerAttack(note, time, velocity);
      this.triggerRelease(time + duration);
      return this;
  };
  \<close>
\<close>

definition triggerAttack :: "ctx \<Rightarrow> jsval \<Rightarrow> jsval \<Rightarrow> jsval \<Rightarrow> duosynth \<Rightarrow> error + duosynth" where
  "triggerAttack c note time velocity this =
     (let time = toSeconds c time in
      and_then (p_triggerEnvelopeAttack c (Num time) velocity this) (\<lambda>this.
      setNote c note (Num time) this))"

definition triggerRelease :: "ctx \<Rightarrow> jsval \<Rightarrow> duosynth \<Rightarrow> error + duosynth" where
  "triggerRelease c time this = p_triggerEnvelopeRelease c time this"

definition triggerAttackRelease ::
  "ctx \<Rightarrow> jsval \<Rightarrow> jsval \<Rightarrow> jsval \<Rightarrow> jsval \<Rightarrow> duosynth \<Rightarrow> error + duosynth" where
  "triggerAttackRelease c note duration time velocity this =
     (let time = toSeconds c time;
          duration = toSeconds c duration
      in and_then (triggerAttack c note (Num time) velocity this) (\<lambda>this.
         triggerRelease c (Num (time + duration)) this))"

section \<open>Teardown\<close>

text \<open>
  Modelled from the spec: \<^verbatim>\<open>Tone.prototype.dispose\<close> is in Tone/core/Tone and the \<^verbatim>\<open>dispose\<close>
  of a collaborator in that collaborator's file; neither is among the sources. Teardown
  disconnects every edge of the graph: the teardown of the base object disconnects the
  output stage and clears the reference, and the \<^verbatim>\<open>dispose\<close> of a collaborator disconnects
  that collaborator.
\<close>

definition Tone_dispose :: "duosynth \<Rightarrow> duosynth" where
  "Tone_dispose this =
     (case output_gain this of None \<Rightarrow> this
      | Some _ \<Rightarrow> this\<lparr>trace := trace this @ [(Output, Disconnect, [])],
                       graph := disconnect Output (graph this),
                       output_gain := None\<rparr>)"

definition dispose_of :: "'a option \<Rightarrow> node \<Rightarrow> duosynth \<Rightarrow> error + duosynth" where
  "dispose_of field n this =
     and_then (invoke field (n, Dispose, []) this)
       (\<lambda>this. Inr (this\<lparr>graph := disconnect n (graph this)\<rparr>))"

definition disconnect_of :: "'a option \<Rightarrow> node \<Rightarrow> duosynth \<Rightarrow> error + duosynth" where
  "disconnect_of field n this =
     and_then (invoke field (n, Disconnect, []) this)
       (\<lambda>this. Inr (this\<lparr>graph := disconnect n (graph this)\<rparr>))"

text \<open>
  \<^verbatim>\<open>
  Tone.Instrument.prototype.dispose = function(){
      Tone.prototype.dispose.call(this);
      this._writable(["volume"]);
      this.volume.dispose();
      this.volume = null;
      return this;
  };
  \<close>
\<close>

definition Instrument_dispose :: "duosynth \<Rightarrow> error + duosynth" where
  "Instrument_dispose this =
     (let this = Tone_dispose this;
          this = p_writable [''volume''] this
      in and_then (dispose_of (volume this) Volume this) (\<lambda>this.
         assign ''volume'' (\<lambda>this. this\<lparr>volume := None\<rparr>) this))"

text \<open>
  Monophonic has no \<^verbatim>\<open>dispose\<close> of its own, so \<^verbatim>\<open>Tone.Monophonic.prototype.dispose\<close> is the
  one of Instrument.
  \<^verbatim>\<open>
  Tone.DuoSynth.prototype.dispose = function(){
      Tone.Monophonic.prototype.dispose.call(this);
      this._writable(["voice0", "voice1", "frequency", "vibratoAmount", "vibratoRate"]);
      this.voice0.dispose();
      this.voice0 = null;
      this.voice1.dispose();
      this.voice1 = null;
      this.frequency.dispose();
      this.frequency = null;
      this._vibrato.dispose();
      this._vibrato = null;
      this._vibratoGain.disconnect();
      this._vibratoGain = null;
      this.harmonicity.dispose();
      this.harmonicity = null;
      this.vibratoAmount.dispose();
      this.vibratoAmount = null;
      this.vibratoRate = null;
      return this;
  };
  \<close>
\<close>

definition dispose :: "duosynth \<Rightarrow> error + duosynth" where
  "dispose this =
     and_then (Instrument_dispose this) (\<lambda>this.
     (let this = p_writable
                   [''voice0'', ''voice1'', ''frequency'', ''vibratoAmount'', ''vibratoRate'']
                   this
      in
     and_then (dispose_of (voice0 this) (Voice Voice0) this) (\<lambda>this.
     and_then (assign ''voice0'' (\<lambda>this. this\<lparr>voice0 := None\<rparr>) this) (\<lambda>this.
     and_then (dispose_of (voice1 this) (Voice Voice1) this) (\<lambda>this.
     and_then (assign ''voice1'' (\<lambda>this. this\<lparr>voice1 := None\<rparr>) this) (\<lambda>this.
     and_then (dispose_of (frequency this) Frequency this) (\<lambda>this.
     and_then (assign ''frequency'' (\<lambda>this. this\<lparr>frequency := None\<rparr>) this) (\<lambda>this.
     and_then (dispose_of (p_vibrato this) Vibrato this) (\<lambda>this.
     and_then (assign ''_vibrato'' (\<lambda>this. this\<lparr>p_vibrato := None\<rparr>) this) (\<lambda>this.
     and_then (disconnect_of (p_vibratoGain this) VibratoGain this) (\<lambda>this.
     and_then (assign ''_vibratoGain'' (\<lambda>this. this\<lparr>p_vibratoGain := None\<rparr>) this) (\<lambda>this.
     and_then (dispose_of (harmonicity this) Harmonicity this) (\<lambda>this.
     and_then (assign ''harmonicity'' (\<lambda>this. this\<lparr>harmonicity := None\<rparr>) this) (\<lambda>this.
     and_then (dispose_of (vibratoAmount this) VibratoAmount this) (\<lambda>this.
     and_then (assign ''vibratoAmount'' (\<lambda>this. this\<lparr>vibratoAmount := None\<rparr>) this) (\<lambda>this.
     assign ''vibratoRate'' (\<lambda>this. this\<lparr>vibratoRate := None\<rparr>) this))))))))))))))))"

section \<open>Sequences of operations\<close>

text \<open>
  The public operations of an instance, and a sequence of them, each made at its own reading
  of the clock. An operation that throws ends the sequence.
\<close>

datatype op =
    Op_triggerAttack jsval jsval jsval
  | Op_triggerRelease jsval
  | Op_triggerAttackRelease jsval jsval jsval jsval
  | Op_setNote jsval jsval
  | Op_dispose

fun exec :: "ctx \<Rightarrow> op \<Rightarrow> duosynth \<Rightarrow> error + duosynth" where
  "exec c (Op_triggerAttack note time velocity) this = triggerAttack c note time velocity this"
| "exec c (Op_triggerRelease time) this = triggerRelease c time this"
| "exec c (Op_triggerAttackRelease note duration time velocity) this =
     triggerAttackRelease c note duration time velocity this"
| "exec c (Op_setNote note time) this = setNote c note time this"
| "exec c Op_dispose this = dispose this"

fun run :: "ctx \<Rightarrow> (real \<times> op) list \<Rightarrow> duosynth \<Rightarrow> error + duosynth" where
  "run c [] this = Inr this"
| "run c (x # xs) this = and_then (exec (c\<lparr>now := fst x\<rparr>) (snd x) this) (run c xs)"

section \<open>What the graph computes\<close>

text \<open>
  Modelled from the spec: the stages are collaborators (\<^verbatim>\<open>Tone.Signal\<close>, \<^verbatim>\<open>Tone.Multiply\<close>,
  the voices), not among the sources. At one instant the frequency parameter, the vibrato
  source and the two voices each put out a value; the multiply stage puts out its input
  times the harmonicity, the vibrato gain stage its input times the vibrato amount; an input
  that is driven takes the sum of what is connected to it. The depth of the evaluation is
  bounded by the number of edges.
\<close>

record instant =
  frequency_out :: real
  harmonicity_value :: real
  vibrato_out :: real
  vibratoAmount_value :: real
  voice_out :: "voice \<Rightarrow> real"

definition inputs :: "(node \<times> node) list \<Rightarrow> node \<Rightarrow> node list" where
  "inputs g n = map fst (filter (\<lambda>e. snd e = n) g)"

fun drive :: "nat \<Rightarrow> (node \<times> node) list \<Rightarrow> instant \<Rightarrow> node \<Rightarrow> real" where
  "drive 0 g i n = 0"
| "drive (Suc k) g i n =
     (let input = sum_list (map (drive k g i) (inputs g n)) in
      case n of
        Frequency \<Rightarrow> frequency_out i
      | Vibrato \<Rightarrow> vibrato_out i
      | Voice v \<Rightarrow> voice_out i v
      | Harmonicity \<Rightarrow> input * harmonicity_value i
      | VibratoGain \<Rightarrow> input * vibratoAmount_value i
      | _ \<Rightarrow> input)"

definition signal_at :: "(node \<times> node) list \<Rightarrow> instant \<Rightarrow> node \<Rightarrow> real" where
  "signal_at g i n = drive (Suc (length g)) g i n"

text \<open>The graph that the constructor of DuoSynth wires, edge by edge in the order of the calls.\<close>

definition DuoSynth_graph :: "(node \<times> node) list" where
  "DuoSynth_graph =
     [(Frequency, VoiceFrequency Voice0), (Frequency, Harmonicity),
      (Harmonicity, VoiceFrequency Voice1), (Vibrato, VibratoGain),
      (VibratoGain, VoiceDetune Voice0), (VibratoGain, VoiceDetune Voice1),
      (Voice Voice0, Output), (Voice Voice1, Output)]"

section \<open>The automation curve of the pitch parameter\<close>

text \<open>
  Modelled from the spec: \<^verbatim>\<open>Tone.Signal\<close> is not among the sources. A scheduling call appends
  a timestamped instruction to the automation curve of the parameter; the curve is an
  append-only log. The curve of \<^verbatim>\<open>this.frequency\<close> is therefore the scheduling calls made on
  it, in order, and the timestamp of a point is the second argument of its call.
\<close>

definition scheduled :: "duosynth \<Rightarrow> call list" where
  "scheduled this =
     filter (\<lambda>cl. fst cl = Frequency \<and>
                  (fst (snd cl) = SetValueAtTime \<or> fst (snd cl) = ExponentialRampToValueAtTime))
       (trace this)"

fun point_time :: "call \<Rightarrow> real option" where
  "point_time (n, m, [v, Num t]) = Some t"
| "point_time _ = None"

text \<open>
  The spec's words for superseding: every point scheduled before the call with a timestamp
  after \<open>t\<close> is gone from the curve after the call.
\<close>

definition cancels_later :: "real \<Rightarrow> call list \<Rightarrow> call list \<Rightarrow> bool" where
  "cancels_later t before after =
     list_all (\<lambda>p. (case point_time p of Some u \<Rightarrow> t < u | None \<Rightarrow> False) \<longrightarrow> p \<notin> set after)
       before"

section \<open>Configurations and what can be observed\<close>

text \<open>The options argument of a constructor is an object, or is left out.\<close>

definition is_options :: "jsval \<Rightarrow> bool" where
  "is_options v = (case v of Undefined \<Rightarrow> True | Obj _ \<Rightarrow> True | _ \<Rightarrow> False)"

text \<open>
  An instance without its private field \<^verbatim>\<open>_vibratoDelay\<close>: every other field, the graph and
  the calls made on the collaborators.
\<close>

definition observable :: "duosynth \<Rightarrow> duosynth" where
  "observable this = this\<lparr>p_vibratoDelay := Undefined\<rparr>"

section \<open>A sample context\<close>

text \<open>
  A context for evaluating the operations on concrete inputs: the clock reads 0, a time
  descriptor resolves to the clock reading, no string is a number, and the voice constructor
  takes the volume of its configuration.
\<close>

definition example_ctx :: ctx where
  "example_ctx =
     \<lparr>now = 0, parseTime = (\<lambda>n s. n), toNumber = (\<lambda>s. None),
      MonoSynth = (\<lambda>options.
        \<lparr>voice_volume = \<lparr>sig_value = get options ''volume'', units = Type_Decibels\<rparr>\<rparr>)\<rparr>"

section \<open>Basic facts\<close>

lemma on_result_Inl: "on_result h (Inl e) = Inl e"
  by (simp add: on_result_def)

lemma on_result_Inr: "on_result h (Inr x) = Inr (h x)"
  by (simp add: on_result_def)

lemma and_then_Inr:
  "and_then m f = Inr y \<longleftrightarrow> (\<exists>x. m = Inr x \<and> f x = Inr y)"
  by (cases m) (simp_all add: and_then_def)

lemma and_then_on_result: "and_then (on_result h m) f = and_then m (\<lambda>x. f (h x))"
  by (cases m) (simp_all add: and_then_def on_result_def)

lemma on_result_and_then: "on_result h (and_then m f) = and_then m (\<lambda>x. on_result h (f x))"
  by (cases m) (simp_all add: and_then_def on_result_def)

lemma on_result_twice: "on_result g (on_result h m) = on_result (\<lambda>x. g (h x)) m"
  by (cases m) (simp_all add: on_result_def)

lemma toSeconds_Num: "toSeconds c (Num t) = t"
  by (simp add: toSeconds_def)

lemma invoke_Inr:
  "invoke field cl this = Inr this' \<longleftrightarrow>
     field \<noteq> None \<and> this' = this\<lparr>trace := trace this @ [cl]\<rparr>"
  by (cases field) (auto simp: invoke_def)

lemma dispose_of_Inr:
  "dispose_of field n this = Inr this' \<longleftrightarrow>
     field \<noteq> None \<and>
     this' = this\<lparr>trace := trace this @ [(n, Dispose, [])],
                  graph := disconnect n (graph this)\<rparr>"
  by (cases field) (auto simp: dispose_of_def invoke_def and_then_def)

lemma disconnect_of_Inr:
  "disconnect_of field n this = Inr this' \<longleftrightarrow>
     field \<noteq> None \<and>
     this' = this\<lparr>trace := trace this @ [(n, Disconnect, [])],
                  graph := disconnect n (graph this)\<rparr>"
  by (cases field) (auto simp: disconnect_of_def invoke_def and_then_def)

lemma assign_Inr:
  "assign name upd this = Inr this' \<longleftrightarrow> name \<notin> set (readOnly this) \<and> this' = upd this"
  by (auto simp: assign_def)

section \<open>Options and their defaults\<close>

lemma map_of_filter_key:
  "map_of (filter (\<lambda>kv. Q (fst kv)) g) k = (if Q k then map_of g k else None)"
  by (induction g) auto

lemma map_of_map_key:
  "map_of (map (\<lambda>kv. (fst kv, F (fst kv) (snd kv))) f) k = map_option (F k) (map_of f k)"
  by (induction f) auto

lemma get_defaultArg_Obj:
  "get (defaultArg (Obj g) (Obj f)) k =
     (case map_of f k of Some fv \<Rightarrow> defaultArg (get (Obj g) k) fv | None \<Rightarrow> get (Obj g) k)"
  using map_of_filter_key [of "\<lambda>k. map_of f k = None" g k]
        map_of_map_key [of "\<lambda>k v. defaultArg (get (Obj g) k) v" f k]
  by (auto simp: map_add_def split: option.splits)

lemma get_defaultArg:
  assumes "is_options v"
  shows "get (defaultArg v (Obj f)) k =
     (case map_of f k of Some fv \<Rightarrow> defaultArg (get v k) fv | None \<Rightarrow> get v k)"
proof (cases v)
  case Undefined
  then show ?thesis by (simp split: option.splits)
next
  case (Obj g)
  show ?thesis unfolding Obj by (rule get_defaultArg_Obj)
qed (use assms in \<open>simp_all add: is_options_def\<close>)

lemma is_options_defaultArg: "is_options v \<Longrightarrow> is_options (defaultArg v (Obj f))"
  by (cases v) (simp_all add: is_options_def)

lemma get_defaultArg_agree:
  assumes "is_options v" and "is_options w" and "get v k = get w k"
  shows "get (defaultArg v (Obj f)) k = get (defaultArg w (Obj f)) k"
  using assms by (simp add: get_defaultArg split: option.splits)

section \<open>The constructed instance\<close>

lemma DuoSynth_eq:
  "DuoSynth c options =
    (let options = defaultArg options DuoSynth_defaults in
     \<lparr>output_gain = Some Output,
      volume = Some \<lparr>sig_value = Num 0, units = Type_Decibels\<rparr>,
      portamento = get (defaultArg options Monophonic_defaults) ''portamento'',
      voice0 = Some (set_volume_value (Num (- 10)) (MonoSynth c (get options ''voice0''))),
      voice1 = Some (set_volume_value (Num (- 10)) (MonoSynth c (get options ''voice1''))),
      p_vibrato = Some (LFO (get options ''vibratoRate'') (- 50) 50),
      vibratoRate = Some VibratoFrequency,
      p_vibratoGain = Some VibratoGain,
      vibratoAmount = Some \<lparr>sig_value = get options ''vibratoAmount'', units = Type_Gain\<rparr>,
      p_vibratoDelay = Num (toSeconds c (get options ''vibratoDelay'')),
      frequency = Some \<lparr>sig_value = Num 440, units = Type_Frequency\<rparr>,
      harmonicity = Some \<lparr>sig_value = get options ''harmonicity'', units = Type_Positive\<rparr>,
      readOnly = [''volume'', ''voice0'', ''voice1'', ''frequency'', ''vibratoAmount'',
                  ''vibratoRate''],
      graph = DuoSynth_graph,
      trace = [(Vibrato, Start, [])]\<rparr>)"
  by (simp add: DuoSynth_def Monophonic_def Instrument_def p_readOnly_def blank_def
      connect_def DuoSynth_graph_def Let_def del: defaultArg.simps(1))

lemma portamento_DuoSynth:
  assumes "is_options options"
  shows "portamento (DuoSynth c options) = defaultArg (get options ''portamento'') (Num 0)"
  using assms
  by (simp add: DuoSynth_eq Let_def Monophonic_defaults_def DuoSynth_defaults_def
      get_defaultArg is_options_defaultArg del: defaultArg.simps(1))

lemma frequency_DuoSynth:
  "frequency (DuoSynth c options) = Some \<lparr>sig_value = Num 440, units = Type_Frequency\<rparr>"
  by (simp add: DuoSynth_eq Let_def)

lemma trace_DuoSynth: "trace (DuoSynth c options) = [(Vibrato, Start, [])]"
  by (simp add: DuoSynth_eq Let_def)

lemma graph_DuoSynth: "graph (DuoSynth c options) = DuoSynth_graph"
  by (simp add: DuoSynth_eq Let_def)

lemma voices_DuoSynth:
  "voice0 (DuoSynth c options) \<noteq> None" "voice1 (DuoSynth c options) \<noteq> None"
  by (simp_all add: DuoSynth_eq Let_def)

section \<open>Pitch scheduling\<close>

lemma setNote_glide:
  assumes "frequency this = Some f" and "portamento this = Num p" and "0 < p"
  shows "setNote c note time this =
           Inr (this\<lparr>trace := trace this @
             [(Frequency, SetValueAtTime, [sig_value f, Num (toSeconds c time)]),
              (Frequency, ExponentialRampToValueAtTime,
                 [note, Num (toSeconds c time + p)])]\<rparr>)"
  using assms
  by (simp add: setNote_def gt_zero_def invoke_def and_then_def Let_def toSeconds_Num)

lemma setNote_discrete:
  assumes "frequency this = Some f" and "\<not> gt_zero c (portamento this)"
  shows "setNote c note time this =
           Inr (this\<lparr>trace := trace this @
             [(Frequency, SetValueAtTime, [note, Num (toSeconds c time)])]\<rparr>)"
  using assms
  by (simp add: setNote_def invoke_def Let_def)

text \<open>
  C2. On an instance whose frequency parameter is in place: when the portamento is a number
  above zero, \<^verbatim>\<open>setNote(note, time)\<close> makes exactly two calls on the frequency parameter, first
  a set of its current value at the resolved time, then an exponential ramp to the note at
  the resolved time plus the portamento; when the portamento is zero it makes exactly one
  call, a set of the note at the resolved time. Nothing else of the instance changes.
\<close>

theorem setNote_policy:
  assumes "frequency this = Some f"
  shows "(portamento this = Num p \<and> 0 < p \<longrightarrow>
           setNote c note time this =
             Inr (this\<lparr>trace := trace this @
               [(Frequency, SetValueAtTime, [sig_value f, Num (toSeconds c time)]),
                (Frequency, ExponentialRampToValueAtTime,
                   [note, Num (toSeconds c time + p)])]\<rparr>)) \<and>
         (portamento this = Num 0 \<longrightarrow>
           setNote c note time this =
             Inr (this\<lparr>trace := trace this @
               [(Frequency, SetValueAtTime, [note, Num (toSeconds c time)])]\<rparr>))"
  using setNote_glide [OF assms] setNote_discrete [OF assms]
  by (simp add: gt_zero_def)

theorem setNote_policy_witness:
  "on_result trace
     (setNote example_ctx (Num 660) (Num 2)
        (DuoSynth example_ctx (Obj [(''portamento'', Num 0.5)]))) =
     Inr [(Vibrato, Start, []),
          (Frequency, SetValueAtTime, [Num 440, Num 2]),
          (Frequency, ExponentialRampToValueAtTime, [Num 660, Num 2.5])] \<and>
   on_result trace
     (setNote example_ctx (Num 660) (Num 2) (DuoSynth example_ctx Undefined)) =
     Inr [(Vibrato, Start, []), (Frequency, SetValueAtTime, [Num 660, Num 2])]"
proof -
  let ?glide = "DuoSynth example_ctx (Obj [(''portamento'', Num 0.5)])"
  let ?plain = "DuoSynth example_ctx Undefined"
  have p1: "portamento ?glide = Num 0.5"
    by (simp add: portamento_DuoSynth is_options_def)
  have p2: "portamento ?plain = Num 0"
    by (simp add: portamento_DuoSynth is_options_def)
  have "setNote example_ctx (Num 660) (Num 2) ?glide =
          Inr (?glide\<lparr>trace := trace ?glide @
            [(Frequency, SetValueAtTime, [Num 440, Num 2]),
             (Frequency, ExponentialRampToValueAtTime, [Num 660, Num 2.5])]\<rparr>)"
    using setNote_policy [OF frequency_DuoSynth, of example_ctx _ "1 / 2" example_ctx
            "Num 660" "Num 2"] p1
    by (simp add: toSeconds_Num)
  moreover have "setNote example_ctx (Num 660) (Num 2) ?plain =
          Inr (?plain\<lparr>trace := trace ?plain @
            [(Frequency, SetValueAtTime, [Num 660, Num 2])]\<rparr>)"
    using setNote_policy [OF frequency_DuoSynth, of example_ctx _ 0 example_ctx
            "Num 660" "Num 2"] p2
    by (simp add: toSeconds_Num)
  ultimately show ?thesis
    by (simp add: on_result_Inr trace_DuoSynth)
qed

text \<open>
  C10. Right after construction the frequency parameter holds 440. On an instance that was
  configured with a portamento above zero, the first \<^verbatim>\<open>setNote(note, time)\<close> therefore sets
  440 at the resolved time and ramps exponentially from there to the note, whatever the note
  is: the calls made so far are the start of the vibrato source, that set and that ramp.
\<close>

theorem first_setNote_glides_from_440:
  assumes "get options ''portamento'' = Num p" and "0 < p"
  shows "frequency (DuoSynth c options) =
           Some \<lparr>sig_value = Num 440, units = Type_Frequency\<rparr> \<and>
         setNote c' note time (DuoSynth c options) =
           Inr ((DuoSynth c options)\<lparr>trace :=
             [(Vibrato, Start, []),
              (Frequency, SetValueAtTime, [Num 440, Num (toSeconds c' time)]),
              (Frequency, ExponentialRampToValueAtTime,
                 [note, Num (toSeconds c' time + p)])]\<rparr>)"
proof -
  from assms(1) have opt: "is_options options"
    by (cases options) (simp_all add: is_options_def)
  have port: "portamento (DuoSynth c options) = Num p"
    using portamento_DuoSynth [OF opt, of c] assms(1) by simp
  from setNote_glide [OF frequency_DuoSynth port assms(2)] show ?thesis
    by (simp add: frequency_DuoSynth trace_DuoSynth)
qed

theorem first_setNote_glides_from_440_witness:
  "on_result trace
     (setNote example_ctx (Str ''C4'') (Num 3)
        (DuoSynth example_ctx (Obj [(''portamento'', Num 0.25)]))) =
   Inr [(Vibrato, Start, []),
        (Frequency, SetValueAtTime, [Num 440, Num 3]),
        (Frequency, ExponentialRampToValueAtTime, [Str ''C4'', Num 3.25])]"
  using first_setNote_glides_from_440
          [of "Obj [(''portamento'', Num 0.25)]" "1 / 4" example_ctx example_ctx
              "Str ''C4''" "Num 3"]
  by (simp add: on_result_Inr toSeconds_Num)

text \<open>
  C4, as the code has it. With a portamento above zero, \<^verbatim>\<open>setNote(note, time)\<close> appends the
  hold point and the ramp to the curve of the frequency parameter and makes no other call:
  every point scheduled before stays on the curve, whatever its timestamp.
\<close>

theorem setNote_glide_appends:
  assumes "frequency this = Some f" and "portamento this = Num p" and "0 < p"
  shows "on_result scheduled (setNote c note time this) =
           Inr (scheduled this @
             [(Frequency, SetValueAtTime, [sig_value f, Num (toSeconds c time)]),
              (Frequency, ExponentialRampToValueAtTime,
                 [note, Num (toSeconds c time + p)])]) \<and>
         on_result trace (setNote c note time this) =
           Inr (trace this @
             [(Frequency, SetValueAtTime, [sig_value f, Num (toSeconds c time)]),
              (Frequency, ExponentialRampToValueAtTime,
                 [note, Num (toSeconds c time + p)])])"
  using setNote_glide [OF assms]
  by (simp add: on_result_Inr scheduled_def)

theorem setNote_glide_appends_witness:
  "on_result scheduled
     (setNote example_ctx (Num 660) (Num 1)
        (DuoSynth example_ctx (Obj [(''portamento'', Num 0.5)]))) =
   Inr [(Frequency, SetValueAtTime, [Num 440, Num 1]),
        (Frequency, ExponentialRampToValueAtTime, [Num 660, Num 1.5])]"
proof -
  let ?glide = "DuoSynth example_ctx (Obj [(''portamento'', Num 0.5)])"
  have port: "portamento ?glide = Num (1 / 2)"
    by (simp add: portamento_DuoSynth is_options_def)
  have half: "(0::real) < 1 / 2"
    by simp
  from setNote_glide_appends [OF frequency_DuoSynth port half, of example_ctx "Num 660" "Num 1"]
  show ?thesis
    by (simp add: scheduled_def trace_DuoSynth toSeconds_Num)
qed

text \<open>
  C4, as the claim has it, fails. An instance with portamento 0.5 is asked for 880 Hz at
  time 5 and then for 660 Hz at time 1. After the second call the curve still holds the two
  points of the first call, whose timestamps 5 and 5.5 are after the hold point at 1.
\<close>

theorem setNote_cancels_nothing:
  "on_result scheduled
     (run example_ctx [(0, Op_setNote (Num 880) (Num 5))]
        (DuoSynth example_ctx (Obj [(''portamento'', Num 0.5)]))) =
     Inr [(Frequency, SetValueAtTime, [Num 440, Num 5]),
          (Frequency, ExponentialRampToValueAtTime, [Num 880, Num 5.5])] \<and>
   on_result scheduled
     (run example_ctx [(0, Op_setNote (Num 880) (Num 5)), (0, Op_setNote (Num 660) (Num 1))]
        (DuoSynth example_ctx (Obj [(''portamento'', Num 0.5)]))) =
     Inr [(Frequency, SetValueAtTime, [Num 440, Num 5]),
          (Frequency, ExponentialRampToValueAtTime, [Num 880, Num 5.5]),
          (Frequency, SetValueAtTime, [Num 440, Num 1]),
          (Frequency, ExponentialRampToValueAtTime, [Num 660, Num 1.5])] \<and>
   \<not> cancels_later 1
       [(Frequency, SetValueAtTime, [Num 440, Num 5]),
        (Frequency, ExponentialRampToValueAtTime, [Num 880, Num 5.5])]
       [(Frequency, SetValueAtTime, [Num 440, Num 5]),
        (Frequency, ExponentialRampToValueAtTime, [Num 880, Num 5.5]),
        (Frequency, SetValueAtTime, [Num 440, Num 1]),
        (Frequency, ExponentialRampToValueAtTime, [Num 660, Num 1.5])]"
proof -
  let ?glide = "DuoSynth example_ctx (Obj [(''portamento'', Num 0.5)])"
  have port: "portamento ?glide = Num (1 / 2)"
    by (simp add: portamento_DuoSynth is_options_def)
  have first: "setNote (example_ctx\<lparr>now := 0\<rparr>) (Num 880) (Num 5) ?glide =
      Inr (?glide\<lparr>trace := [(Vibrato, Start, []),
             (Frequency, SetValueAtTime, [Num 440, Num 5]),
             (Frequency, ExponentialRampToValueAtTime, [Num 880, Num 5.5])]\<rparr>)"
    using setNote_glide [OF frequency_DuoSynth port, of "example_ctx\<lparr>now := 0\<rparr>"
            "Num 880" "Num 5"]
    by (simp add: trace_DuoSynth toSeconds_Num)
  let ?mid = "?glide\<lparr>trace := [(Vibrato, Start, []),
             (Frequency, SetValueAtTime, [Num 440, Num 5]),
             (Frequency, ExponentialRampToValueAtTime, [Num 880, Num 5.5])]\<rparr>"
  have freq: "frequency ?mid = Some \<lparr>sig_value = Num 440, units = Type_Frequency\<rparr>"
    by (simp add: frequency_DuoSynth)
  have port': "portamento ?mid = Num (1 / 2)"
    using port by simp
  have second: "setNote (example_ctx\<lparr>now := 0\<rparr>) (Num 660) (Num 1) ?mid =
      Inr (?mid\<lparr>trace := [(Vibrato, Start, []),
             (Frequency, SetValueAtTime, [Num 440, Num 5]),
             (Frequency, ExponentialRampToValueAtTime, [Num 880, Num 5.5]),
             (Frequency, SetValueAtTime, [Num 440, Num 1]),
             (Frequency, ExponentialRampToValueAtTime, [Num 660, Num 1.5])]\<rparr>)"
    using setNote_glide [OF freq port', of "example_ctx\<lparr>now := 0\<rparr>" "Num 660" "Num 1"]
    by (simp add: toSeconds_Num)
  have "\<not> cancels_later 1
       [(Frequency, SetValueAtTime, [Num 440, Num 5]),
        (Frequency, ExponentialRampToValueAtTime, [Num 880, Num 5.5])]
       [(Frequency, SetValueAtTime, [Num 440, Num 5]),
        (Frequency, ExponentialRampToValueAtTime, [Num 880, Num 5.5]),
        (Frequency, SetValueAtTime, [Num 440, Num 1]),
        (Frequency, ExponentialRampToValueAtTime, [Num 660, Num 1.5])]"
    by (simp add: cancels_later_def)
  with first second show ?thesis
    by (simp add: and_then_def on_result_Inr scheduled_def)
qed

section \<open>The envelope hooks and the triggers\<close>

lemma p_triggerEnvelopeAttack_live:
  assumes "voice0 this = Some v0" and "voice1 this = Some v1"
  shows "p_triggerEnvelopeAttack c time velocity this =
           Inr (this\<lparr>trace := trace this @
             [(VoiceEnvelope Voice0, TriggerAttack, [Num (toSeconds c time), velocity]),
              (VoiceEnvelope Voice1, TriggerAttack, [Num (toSeconds c time), velocity]),
              (VoiceFilterEnvelope Voice0, TriggerAttack, [Num (toSeconds c time)]),
              (VoiceFilterEnvelope Voice1, TriggerAttack, [Num (toSeconds c time)])]\<rparr>)"
  using assms
  by (simp add: p_triggerEnvelopeAttack_def invoke_def and_then_def Let_def)

lemma p_triggerEnvelopeRelease_live:
  assumes "voice0 this = Some v0" and "voice1 this = Some v1"
  shows "p_triggerEnvelopeRelease c time this =
           Inr (this\<lparr>trace := trace this @
             [(Voice Voice0, TriggerRelease, [time]), (Voice Voice1, TriggerRelease, [time])]\<rparr>)"
  using assms
  by (simp add: p_triggerEnvelopeRelease_def invoke_def and_then_def)

lemma setNote_live:
  assumes "frequency this = Some f"
  shows "\<exists>this'. setNote c note time this = Inr this' \<and> voice0 this' = voice0 this \<and>
           voice1 this' = voice1 this \<and> frequency this' = frequency this"
  using assms
  by (simp add: setNote_def invoke_def and_then_def Let_def)

lemma triggerAttack_live:
  assumes "voice0 this = Some v0" and "voice1 this = Some v1" and "frequency this = Some f"
  shows "\<exists>this'. triggerAttack c note time velocity this = Inr this' \<and>
           voice0 this' = Some v0 \<and> voice1 this' = Some v1 \<and> frequency this' = Some f"
proof -
  let ?mid = "this\<lparr>trace := trace this @
             [(VoiceEnvelope Voice0, TriggerAttack, [Num (toSeconds c time), velocity]),
              (VoiceEnvelope Voice1, TriggerAttack, [Num (toSeconds c time), velocity]),
              (VoiceFilterEnvelope Voice0, TriggerAttack, [Num (toSeconds c time)]),
              (VoiceFilterEnvelope Voice1, TriggerAttack, [Num (toSeconds c time)])]\<rparr>"
  have "frequency ?mid = Some f"
    using assms(3) by simp
  from setNote_live [OF this, of c "note" "Num (toSeconds c time)"]
  show ?thesis
    using assms p_triggerEnvelopeAttack_live [OF assms(1,2), of c "Num (toSeconds c time)"]
    by (auto simp: triggerAttack_def Let_def and_then_def toSeconds_Num)
qed

text \<open>
  C7. On an instance whose voices are in place, \<^verbatim>\<open>_triggerEnvelopeAttack(time, velocity)\<close>
  makes exactly four calls, in this order: the attack of the amplitude envelope of voice0
  and of voice1, each with the resolved time and the velocity, and the attack of the filter
  envelope of voice0 and of voice1, each with the resolved time alone. Nothing else of the
  instance changes. A time that is a number resolves to itself.
\<close>

theorem triggerEnvelopeAttack_forwards:
  assumes "voice0 this = Some v0" and "voice1 this = Some v1"
  shows "p_triggerEnvelopeAttack c time velocity this =
           Inr (this\<lparr>trace := trace this @
             [(VoiceEnvelope Voice0, TriggerAttack, [Num (toSeconds c time), velocity]),
              (VoiceEnvelope Voice1, TriggerAttack, [Num (toSeconds c time), velocity]),
              (VoiceFilterEnvelope Voice0, TriggerAttack, [Num (toSeconds c time)]),
              (VoiceFilterEnvelope Voice1, TriggerAttack, [Num (toSeconds c time)])]\<rparr>) \<and>
         toSeconds c (Num t) = t"
  using assms
  by (simp add: p_triggerEnvelopeAttack_def invoke_def and_then_def Let_def toSeconds_Num)

theorem triggerEnvelopeAttack_forwards_witness:
  "on_result trace
     (p_triggerEnvelopeAttack example_ctx (Num 2) (Num 0.8) (DuoSynth example_ctx Undefined)) =
   Inr [(Vibrato, Start, []),
        (VoiceEnvelope Voice0, TriggerAttack, [Num 2, Num 0.8]),
        (VoiceEnvelope Voice1, TriggerAttack, [Num 2, Num 0.8]),
        (VoiceFilterEnvelope Voice0, TriggerAttack, [Num 2]),
        (VoiceFilterEnvelope Voice1, TriggerAttack, [Num 2])]"
  using triggerEnvelopeAttack_forwards
          [of "DuoSynth example_ctx Undefined" _ _ example_ctx "Num 2" "Num 0.8"]
        voices_DuoSynth [of example_ctx Undefined]
  by (auto simp: on_result_Inr trace_DuoSynth toSeconds_Num)

text \<open>
  C6. \<^verbatim>\<open>triggerAttack(note, time, velocity)\<close> of Monophonic, on a DuoSynth whose voices and
  frequency parameter are in place: the time is resolved, the envelope-attack hook is called
  with the resolved time and the velocity, and then \<^verbatim>\<open>setNote\<close> is called with the note and
  the resolved time on the instance as the hook left it. The hook makes its four calls, the
  pitch calls follow them, and the operation returns the instance.
\<close>

theorem triggerAttack_steps:
  assumes "voice0 this = Some v0" and "voice1 this = Some v1" and "frequency this = Some f"
  shows "triggerAttack c note time velocity this =
           and_then (p_triggerEnvelopeAttack c (Num (toSeconds c time)) velocity this)
             (setNote c note (Num (toSeconds c time))) \<and>
         triggerAttack c note time velocity this =
           Inr (this\<lparr>trace := trace this @
             [(VoiceEnvelope Voice0, TriggerAttack, [Num (toSeconds c time), velocity]),
              (VoiceEnvelope Voice1, TriggerAttack, [Num (toSeconds c time), velocity]),
              (VoiceFilterEnvelope Voice0, TriggerAttack, [Num (toSeconds c time)]),
              (VoiceFilterEnvelope Voice1, TriggerAttack, [Num (toSeconds c time)])] @
             (if gt_zero c (portamento this)
              then [(Frequency, SetValueAtTime, [sig_value f, Num (toSeconds c time)]),
                    (Frequency, ExponentialRampToValueAtTime,
                       [note, Num (toSeconds c time + toSeconds c (portamento this))])]
              else [(Frequency, SetValueAtTime, [note, Num (toSeconds c time)])])\<rparr>)"
  using assms
  by (simp add: triggerAttack_def p_triggerEnvelopeAttack_def setNote_def invoke_def
      and_then_def Let_def toSeconds_Num)

theorem triggerAttack_steps_witness:
  "on_result trace
     (triggerAttack example_ctx (Str ''A4'') Undefined (Num 0.8)
        (DuoSynth example_ctx Undefined)) =
   Inr [(Vibrato, Start, []),
        (VoiceEnvelope Voice0, TriggerAttack, [Num 0, Num 0.8]),
        (VoiceEnvelope Voice1, TriggerAttack, [Num 0, Num 0.8]),
        (VoiceFilterEnvelope Voice0, TriggerAttack, [Num 0]),
        (VoiceFilterEnvelope Voice1, TriggerAttack, [Num 0]),
        (Frequency, SetValueAtTime, [Str ''A4'', Num 0])]"
proof -
  let ?plain = "DuoSynth example_ctx Undefined"
  obtain v0 v1 where v: "voice0 ?plain = Some v0" "voice1 ?plain = Some v1"
    using voices_DuoSynth [of example_ctx Undefined] by auto
  have port: "portamento ?plain = Num 0"
    by (simp add: portamento_DuoSynth is_options_def)
  have now: "toSeconds example_ctx Undefined = 0"
    by (simp add: toSeconds_def example_ctx_def)
  from triggerAttack_steps [OF v frequency_DuoSynth, of example_ctx "Str ''A4''" Undefined
         "Num 0.8", THEN conjunct2]
  show ?thesis
    by (simp add: on_result_Inr trace_DuoSynth port now gt_zero_def)
qed

text \<open>
  C3. \<^verbatim>\<open>triggerAttackRelease(note, duration, time, velocity)\<close> resolves the time and the
  duration and is then \<^verbatim>\<open>triggerAttack\<close> with the note, the resolved time and the velocity,
  followed by \<^verbatim>\<open>triggerRelease\<close> at the resolved time plus the resolved duration, on the
  instance as the attack left it; passing the unresolved time to \<^verbatim>\<open>triggerAttack\<close> gives the
  same. With the voices and the frequency parameter in place it returns the instance.
\<close>

theorem triggerAttackRelease_is_attack_then_release:
  "triggerAttackRelease c note duration time velocity this =
     and_then (triggerAttack c note (Num (toSeconds c time)) velocity this)
       (triggerRelease c (Num (toSeconds c time + toSeconds c duration))) \<and>
   triggerAttackRelease c note duration time velocity this =
     and_then (triggerAttack c note time velocity this)
       (triggerRelease c (Num (toSeconds c time + toSeconds c duration))) \<and>
   (voice0 this \<noteq> None \<and> voice1 this \<noteq> None \<and> frequency this \<noteq> None \<longrightarrow>
      (\<exists>this'. triggerAttackRelease c note duration time velocity this = Inr this'))"
proof -
  have same: "triggerAttack c note (Num (toSeconds c time)) velocity this =
              triggerAttack c note time velocity this"
    by (simp add: triggerAttack_def Let_def toSeconds_Num)
  have first: "triggerAttackRelease c note duration time velocity this =
     and_then (triggerAttack c note (Num (toSeconds c time)) velocity this)
       (triggerRelease c (Num (toSeconds c time + toSeconds c duration)))"
    by (simp add: triggerAttackRelease_def Let_def)
  have returns: "\<exists>this'. triggerAttackRelease c note duration time velocity this = Inr this'"
    if live: "voice0 this \<noteq> None \<and> voice1 this \<noteq> None \<and> frequency this \<noteq> None"
  proof -
    from live obtain v0 v1 f where
      "voice0 this = Some v0" "voice1 this = Some v1" "frequency this = Some f"
      by auto
    from triggerAttack_live [OF this, of c "note" "Num (toSeconds c time)" velocity]
    obtain mid where mid: "triggerAttack c note (Num (toSeconds c time)) velocity this = Inr mid"
      "voice0 mid = Some v0" "voice1 mid = Some v1"
      by auto
    from p_triggerEnvelopeRelease_live [OF mid(2,3)] mid(1) first show ?thesis
      by (simp add: and_then_def triggerRelease_def)
  qed
  from same first returns show ?thesis
    by simp
qed

theorem triggerAttackRelease_is_attack_then_release_witness:
  "voice0 (DuoSynth example_ctx Undefined) \<noteq> None \<and>
   voice1 (DuoSynth example_ctx Undefined) \<noteq> None \<and>
   frequency (DuoSynth example_ctx Undefined) \<noteq> None \<and>
   on_result trace
     (triggerAttackRelease example_ctx (Num 440) (Num 0.5) (Num 1) (Num 0.8)
        (DuoSynth example_ctx Undefined)) =
   Inr [(Vibrato, Start, []),
        (VoiceEnvelope Voice0, TriggerAttack, [Num 1, Num 0.8]),
        (VoiceEnvelope Voice1, TriggerAttack, [Num 1, Num 0.8]),
        (VoiceFilterEnvelope Voice0, TriggerAttack, [Num 1]),
        (VoiceFilterEnvelope Voice1, TriggerAttack, [Num 1]),
        (Frequency, SetValueAtTime, [Num 440, Num 1]),
        (Voice Voice0, TriggerRelease, [Num 1.5]),
        (Voice Voice1, TriggerRelease, [Num 1.5])]"
proof -
  let ?plain = "DuoSynth example_ctx Undefined"
  have port: "portamento ?plain = Num 0"
    by (simp add: portamento_DuoSynth is_options_def)
  have live: "voice0 ?plain \<noteq> None \<and> voice1 ?plain \<noteq> None \<and> frequency ?plain \<noteq> None"
    by (simp add: voices_DuoSynth frequency_DuoSynth)
  have eq: "triggerAttackRelease example_ctx (Num 440) (Num 0.5) (Num 1) (Num 0.8) ?plain =
           and_then (triggerAttack example_ctx (Num 440) (Num 1) (Num 0.8) ?plain)
             (triggerRelease example_ctx (Num (1 + 0.5)))"
    using triggerAttackRelease_is_attack_then_release
            [of example_ctx "Num 440" "Num 0.5" "Num 1" "Num 0.8" ?plain, THEN conjunct1]
    by (simp add: toSeconds_Num)
  show ?thesis
    unfolding eq using live port
    by (auto simp: triggerAttack_def p_triggerEnvelopeAttack_def setNote_def triggerRelease_def
        p_triggerEnvelopeRelease_def invoke_def and_then_def Let_def toSeconds_Num gt_zero_def
        on_result_Inr trace_DuoSynth)
qed

section \<open>The level of the voices\<close>

text \<open>
  C5, as the code has it. Whatever the configuration and whatever the voice constructor does
  with it, after construction the volume of each voice is -10: the constructor of DuoSynth
  assigns it after it has built the voice.
\<close>

theorem voice_volume_always_minus_10:
  "map_option (\<lambda>v. sig_value (voice_volume v)) (voice0 (DuoSynth c options)) =
     Some (Num (- 10)) \<and>
   map_option (\<lambda>v. sig_value (voice_volume v)) (voice1 (DuoSynth c options)) =
     Some (Num (- 10))"
  by (simp add: DuoSynth_eq Let_def set_volume_value_def)

text \<open>
  The voice constructor of the sample context takes the volume of its configuration, and a
  caller who asks for -3 on voice0 still gets -10.
\<close>

lemma voice_volume_minus_3_requested:
  "MonoSynth example_ctx
     (get (defaultArg (Obj [(''voice0'', Obj [(''volume'', Num (- 3))])]) DuoSynth_defaults)
        ''voice0'') =
     \<lparr>voice_volume = \<lparr>sig_value = Num (- 3), units = Type_Decibels\<rparr>\<rparr> \<and>
   voice0 (DuoSynth example_ctx (Obj [(''voice0'', Obj [(''volume'', Num (- 3))])])) =
     Some \<lparr>voice_volume = \<lparr>sig_value = Num (- 10), units = Type_Decibels\<rparr>\<rparr>"
  by (simp add: DuoSynth_eq Let_def set_volume_value_def example_ctx_def DuoSynth_defaults_def)

section \<open>Teardown\<close>

lemma dispose_clears:
  assumes "dispose this = Inr this'"
  shows "voice0 this' = None \<and> voice1 this' = None \<and> frequency this' = None \<and>
         vibratoAmount this' = None \<and> vibratoRate this' = None \<and> volume this' = None \<and>
         p_vibrato this' = None \<and> p_vibratoGain this' = None \<and> harmonicity this' = None \<and>
         output_gain this' = None"
  using assms
  by (auto simp: dispose_def Instrument_dispose_def and_then_Inr dispose_of_Inr
      disconnect_of_Inr assign_Inr Let_def p_writable_def Tone_dispose_def split: option.splits)

lemma exec_on_disposed:
  assumes "voice0 this = None" and "frequency this = None" and "volume this = None"
  shows "exec c op this = Inl TypeError"
  using assms
  by (cases op)
     (simp_all add: triggerAttack_def triggerRelease_def triggerAttackRelease_def
        p_triggerEnvelopeAttack_def p_triggerEnvelopeRelease_def setNote_def dispose_def
        Instrument_dispose_def dispose_of_def invoke_def and_then_def Let_def
        p_writable_def Tone_dispose_def split: option.splits)

lemma dispose_DuoSynth:
  "\<exists>this'. dispose (DuoSynth c options) = Inr this' \<and> graph this' = []"
  by (simp add: DuoSynth_eq DuoSynth_graph_def Let_def dispose_def Instrument_dispose_def
      and_then_def dispose_of_def disconnect_of_def invoke_def assign_def p_writable_def
      Tone_dispose_def disconnect_def)

text \<open>
  C8. When \<^verbatim>\<open>dispose()\<close> has returned, \<^verbatim>\<open>voice0\<close>, \<^verbatim>\<open>voice1\<close>, \<^verbatim>\<open>frequency\<close>,
  \<^verbatim>\<open>vibratoAmount\<close>, \<^verbatim>\<open>vibratoRate\<close> and \<^verbatim>\<open>volume\<close> are null, and every operation on the
  instance (\<^verbatim>\<open>triggerAttack\<close>, \<^verbatim>\<open>triggerRelease\<close>, \<^verbatim>\<open>triggerAttackRelease\<close>, \<^verbatim>\<open>setNote\<close>,
  a second \<^verbatim>\<open>dispose\<close>), with any arguments, throws a TypeError.
\<close>

theorem dispose_clears_references:
  assumes "dispose this = Inr this'"
  shows "voice0 this' = None \<and> voice1 this' = None \<and> frequency this' = None \<and>
         vibratoAmount this' = None \<and> vibratoRate this' = None \<and> volume this' = None \<and>
         exec c op this' = Inl TypeError"
  using dispose_clears [OF assms] exec_on_disposed [of this' c op]
  by simp

theorem dispose_clears_references_witness:
  "on_result voice0 (dispose (DuoSynth example_ctx Undefined)) = Inr None \<and>
   on_result frequency (dispose (DuoSynth example_ctx Undefined)) = Inr None \<and>
   on_result volume (dispose (DuoSynth example_ctx Undefined)) = Inr None \<and>
   and_then (dispose (DuoSynth example_ctx Undefined))
     (exec example_ctx (Op_triggerAttack (Str ''C4'') Undefined Undefined)) = Inl TypeError \<and>
   and_then (dispose (DuoSynth example_ctx Undefined)) (exec example_ctx Op_dispose) =
     Inl TypeError"
proof -
  obtain this' where d: "dispose (DuoSynth example_ctx Undefined) = Inr this'"
    using dispose_DuoSynth [of example_ctx Undefined] by auto
  from dispose_clears_references [OF d, of example_ctx "Op_triggerAttack (Str ''C4'') Undefined Undefined"]
       dispose_clears_references [OF d, of example_ctx Op_dispose]
  show ?thesis
    by (simp add: d on_result_Inr and_then_def)
qed

section \<open>The pitch of the two voices\<close>

lemma setNote_graph: "setNote c note time this = Inr this' \<Longrightarrow> graph this' = graph this"
  by (auto simp: setNote_def Let_def and_then_Inr invoke_Inr split: if_splits option.splits)

lemma triggerAttack_graph:
  "triggerAttack c note time velocity this = Inr this' \<Longrightarrow> graph this' = graph this"
  by (auto simp: triggerAttack_def p_triggerEnvelopeAttack_def Let_def and_then_Inr invoke_Inr
      dest!: setNote_graph)

lemma triggerRelease_graph:
  "triggerRelease c time this = Inr this' \<Longrightarrow> graph this' = graph this"
  by (auto simp: triggerRelease_def p_triggerEnvelopeRelease_def and_then_Inr invoke_Inr)

lemma exec_graph:
  assumes "exec c op this = Inr this'" and "op \<noteq> Op_dispose"
  shows "graph this' = graph this"
  using assms
  by (cases op)
     (auto simp: triggerAttackRelease_def Let_def and_then_Inr
        dest!: triggerAttack_graph triggerRelease_graph setNote_graph)

lemma run_graph:
  assumes "run c ops this = Inr this'" and "Op_dispose \<notin> snd ` set ops"
  shows "graph this' = graph this"
  using assms
proof (induction ops arbitrary: this)
  case Nil
  then show ?case by simp
next
  case (Cons x xs)
  from Cons.prems(1) obtain mid where
    step: "exec (c\<lparr>now := fst x\<rparr>) (snd x) this = Inr mid" and rest: "run c xs mid = Inr this'"
    by (auto simp: and_then_Inr)
  from Cons.prems(2) have "snd x \<noteq> Op_dispose" and "Op_dispose \<notin> snd ` set xs"
    by force+
  with step rest Cons.IH [of mid] exec_graph [OF step] show ?case by simp
qed

lemma signal_voice0: "signal_at DuoSynth_graph i (VoiceFrequency Voice0) = frequency_out i"
  by (simp add: signal_at_def DuoSynth_graph_def inputs_def Let_def)

lemma signal_voice1:
  "signal_at DuoSynth_graph i (VoiceFrequency Voice1) = frequency_out i * harmonicity_value i"
  by (simp add: signal_at_def DuoSynth_graph_def inputs_def Let_def)

lemma signal_detune:
  "signal_at DuoSynth_graph i (VoiceDetune v) = vibrato_out i * vibratoAmount_value i"
  by (cases v) (simp_all add: signal_at_def DuoSynth_graph_def inputs_def Let_def)

text \<open>
  C1. After construction and any sequence of operations without \<^verbatim>\<open>dispose\<close>, at every
  instant, whatever the frequency parameter puts out and whatever the harmonicity is: the
  pitch input of voice0 is what the frequency parameter puts out, and the pitch input of
  voice1 is the pitch input of voice0 times the harmonicity.
\<close>

theorem voice1_pitch_is_voice0_pitch_times_harmonicity:
  assumes "run c' ops (DuoSynth c options) = Inr this" and "Op_dispose \<notin> snd ` set ops"
  shows "signal_at (graph this) i (VoiceFrequency Voice0) = frequency_out i \<and>
         signal_at (graph this) i (VoiceFrequency Voice1) =
           signal_at (graph this) i (VoiceFrequency Voice0) * harmonicity_value i"
  using run_graph [OF assms]
  by (simp add: graph_DuoSynth signal_voice0 signal_voice1)

theorem voice1_pitch_is_voice0_pitch_times_harmonicity_witness:
  "on_result
     (\<lambda>this. (signal_at (graph this)
                 \<lparr>frequency_out = 440, harmonicity_value = 1.5, vibrato_out = 0,
                  vibratoAmount_value = 0.5, voice_out = (\<lambda>v. 0)\<rparr> (VoiceFrequency Voice0),
               signal_at (graph this)
                 \<lparr>frequency_out = 440, harmonicity_value = 1.5, vibrato_out = 0,
                  vibratoAmount_value = 0.5, voice_out = (\<lambda>v. 0)\<rparr> (VoiceFrequency Voice1)))
     (run example_ctx
        [(0, Op_triggerAttack (Num 440) (Num 0) Undefined), (1, Op_triggerRelease (Num 1))]
        (DuoSynth example_ctx Undefined)) =
   Inr (440, 660)"
proof -
  let ?ops = "[(0, Op_triggerAttack (Num 440) (Num 0) Undefined), (1, Op_triggerRelease (Num 1))]"
  let ?plain = "DuoSynth example_ctx Undefined"
  have port: "portamento ?plain = Num 0"
    by (simp add: portamento_DuoSynth is_options_def)
  have "\<exists>this. run example_ctx ?ops ?plain = Inr this"
    using voices_DuoSynth [of example_ctx Undefined] frequency_DuoSynth [of example_ctx Undefined]
      port
    by (auto simp: triggerAttack_def p_triggerEnvelopeAttack_def setNote_def triggerRelease_def
        p_triggerEnvelopeRelease_def invoke_def and_then_def Let_def gt_zero_def)
  then obtain this where r: "run example_ctx ?ops ?plain = Inr this"
    by auto
  have "Op_dispose \<notin> snd ` set ?ops"
    by simp
  from voice1_pitch_is_voice0_pitch_times_harmonicity [OF r this]
  show ?thesis
    unfolding r by (simp add: on_result_Inr)
qed

section \<open>The vibrato delay\<close>

lemma invoke_delay:
  "invoke field cl (this\<lparr>p_vibratoDelay := d\<rparr>) =
     on_result (\<lambda>s. s\<lparr>p_vibratoDelay := d\<rparr>) (invoke field cl this)"
  by (cases field) (simp_all add: invoke_def on_result_def)

lemma setNote_delay:
  "setNote c note time (this\<lparr>p_vibratoDelay := d\<rparr>) =
     on_result (\<lambda>s. s\<lparr>p_vibratoDelay := d\<rparr>) (setNote c note time this)"
  by (simp add: setNote_def Let_def invoke_delay and_then_on_result on_result_and_then
      on_result_Inl split: option.splits)

lemma p_triggerEnvelopeAttack_delay:
  "p_triggerEnvelopeAttack c time velocity (this\<lparr>p_vibratoDelay := d\<rparr>) =
     on_result (\<lambda>s. s\<lparr>p_vibratoDelay := d\<rparr>) (p_triggerEnvelopeAttack c time velocity this)"
  by (simp add: p_triggerEnvelopeAttack_def Let_def invoke_delay and_then_on_result
      on_result_and_then)

lemma triggerAttack_delay:
  "triggerAttack c note time velocity (this\<lparr>p_vibratoDelay := d\<rparr>) =
     on_result (\<lambda>s. s\<lparr>p_vibratoDelay := d\<rparr>) (triggerAttack c note time velocity this)"
  by (simp add: triggerAttack_def Let_def p_triggerEnvelopeAttack_delay setNote_delay
      and_then_on_result on_result_and_then)

lemma triggerRelease_delay:
  "triggerRelease c time (this\<lparr>p_vibratoDelay := d\<rparr>) =
     on_result (\<lambda>s. s\<lparr>p_vibratoDelay := d\<rparr>) (triggerRelease c time this)"
  by (simp add: triggerRelease_def p_triggerEnvelopeRelease_def invoke_delay and_then_on_result
      on_result_and_then)

lemma triggerAttackRelease_delay:
  "triggerAttackRelease c note duration time velocity (this\<lparr>p_vibratoDelay := d\<rparr>) =
     on_result (\<lambda>s. s\<lparr>p_vibratoDelay := d\<rparr>)
       (triggerAttackRelease c note duration time velocity this)"
  by (simp add: triggerAttackRelease_def Let_def triggerAttack_delay triggerRelease_delay
      and_then_on_result on_result_and_then)

lemma dispose_of_delay:
  "dispose_of field n (this\<lparr>p_vibratoDelay := d\<rparr>) =
     on_result (\<lambda>s. s\<lparr>p_vibratoDelay := d\<rparr>) (dispose_of field n this)"
  by (cases field) (simp_all add: dispose_of_def invoke_def and_then_def on_result_def)

lemma disconnect_of_delay:
  "disconnect_of field n (this\<lparr>p_vibratoDelay := d\<rparr>) =
     on_result (\<lambda>s. s\<lparr>p_vibratoDelay := d\<rparr>) (disconnect_of field n this)"
  by (cases field) (simp_all add: disconnect_of_def invoke_def and_then_def on_result_def)

lemma Tone_dispose_delay:
  "Tone_dispose (this\<lparr>p_vibratoDelay := d\<rparr>) = (Tone_dispose this)\<lparr>p_vibratoDelay := d\<rparr>"
  by (simp add: Tone_dispose_def split: option.splits)

lemma p_writable_delay:
  "p_writable names (this\<lparr>p_vibratoDelay := d\<rparr>) =
     (p_writable names this)\<lparr>p_vibratoDelay := d\<rparr>"
  by (simp add: p_writable_def)

lemma assign_delay:
  assumes "upd (this\<lparr>p_vibratoDelay := d\<rparr>) = (upd this)\<lparr>p_vibratoDelay := d\<rparr>"
  shows "assign name upd (this\<lparr>p_vibratoDelay := d\<rparr>) =
           on_result (\<lambda>s. s\<lparr>p_vibratoDelay := d\<rparr>) (assign name upd this)"
  using assms by (simp add: assign_def on_result_def)

lemma Instrument_dispose_delay:
  "Instrument_dispose (this\<lparr>p_vibratoDelay := d\<rparr>) =
     on_result (\<lambda>s. s\<lparr>p_vibratoDelay := d\<rparr>) (Instrument_dispose this)"
  by (simp add: Instrument_dispose_def Let_def Tone_dispose_delay p_writable_delay
      dispose_of_delay assign_delay and_then_on_result on_result_and_then)

lemma dispose_delay:
  "dispose (this\<lparr>p_vibratoDelay := d\<rparr>) =
     on_result (\<lambda>s. s\<lparr>p_vibratoDelay := d\<rparr>) (dispose this)"
  by (simp add: dispose_def Let_def Instrument_dispose_delay p_writable_delay dispose_of_delay
      disconnect_of_delay assign_delay and_then_on_result on_result_and_then)

lemma exec_delay:
  "exec c op (this\<lparr>p_vibratoDelay := d\<rparr>) =
     on_result (\<lambda>s. s\<lparr>p_vibratoDelay := d\<rparr>) (exec c op this)"
  by (cases op)
     (simp_all add: triggerAttack_delay triggerRelease_delay triggerAttackRelease_delay
        setNote_delay dispose_delay)

lemma run_delay:
  "run c ops (this\<lparr>p_vibratoDelay := d\<rparr>) =
     on_result (\<lambda>s. s\<lparr>p_vibratoDelay := d\<rparr>) (run c ops this)"
proof (induction ops arbitrary: this)
  case Nil
  show ?case by (simp add: on_result_Inr)
next
  case (Cons x xs)
  show ?case
    by (simp add: exec_delay Cons.IH and_then_on_result on_result_and_then)
qed

lemma observable_run:
  "on_result observable (run c ops (this\<lparr>p_vibratoDelay := d\<rparr>)) =
   on_result observable (run c ops this)"
proof -
  have "(\<lambda>x. observable (x\<lparr>p_vibratoDelay := d\<rparr>)) = observable"
    by (simp add: observable_def fun_eq_iff)
  then show ?thesis
    by (simp add: run_delay on_result_twice)
qed

lemma DuoSynth_delay_only:
  assumes "is_options v" and "is_options w"
    and "\<forall>k. k \<noteq> ''vibratoDelay'' \<longrightarrow> get v k = get w k"
  shows "DuoSynth c w = (DuoSynth c v)\<lparr>p_vibratoDelay := p_vibratoDelay (DuoSynth c w)\<rparr>"
proof -
  have agree: "get (defaultArg v DuoSynth_defaults) k = get (defaultArg w DuoSynth_defaults) k"
    if "k \<noteq> ''vibratoDelay''" for k
    unfolding DuoSynth_defaults_def
    using assms that by (intro get_defaultArg_agree) simp_all
  have "get (defaultArg (defaultArg v DuoSynth_defaults) Monophonic_defaults) ''portamento'' =
        get (defaultArg (defaultArg w DuoSynth_defaults) Monophonic_defaults) ''portamento''"
    unfolding Monophonic_defaults_def
    using assms(1,2) agree [of "''portamento''"]
    by (intro get_defaultArg_agree) (simp_all add: DuoSynth_defaults_def is_options_defaultArg
        del: defaultArg.simps(1))
  then show ?thesis
    by (simp add: DuoSynth_eq Let_def agree)
qed

text \<open>
  C9. The option \<^verbatim>\<open>vibratoDelay\<close> (default 1) is resolved to seconds by the constructor and
  kept in \<^verbatim>\<open>_vibratoDelay\<close>. For two configurations that agree on every other key, every
  sequence of operations, on the two instances built from them, throws in the same cases
  and otherwise leaves the two instances equal in every field but \<^verbatim>\<open>_vibratoDelay\<close>, the
  calls made on the collaborators and the graph included.
\<close>

theorem vibratoDelay_has_no_effect:
  assumes "is_options v" and "is_options w"
    and "\<forall>k. k \<noteq> ''vibratoDelay'' \<longrightarrow> get v k = get w k"
  shows "p_vibratoDelay (DuoSynth c v) =
           Num (toSeconds c (defaultArg (get v ''vibratoDelay'') (Num 1))) \<and>
         on_result observable (run c' ops (DuoSynth c v)) =
           on_result observable (run c' ops (DuoSynth c w))"
proof -
  have "p_vibratoDelay (DuoSynth c v) =
          Num (toSeconds c (defaultArg (get v ''vibratoDelay'') (Num 1)))"
    using assms(1)
    by (simp add: DuoSynth_eq Let_def DuoSynth_defaults_def get_defaultArg
        del: defaultArg.simps(1))
  moreover have "on_result observable (run c' ops (DuoSynth c w)) =
                 on_result observable (run c' ops (DuoSynth c v))"
    using DuoSynth_delay_only [OF assms, of c]
      observable_run [where c = c' and ops = ops and this = "DuoSynth c v"
        and d = "p_vibratoDelay (DuoSynth c w)"]
    by simp
  ultimately show ?thesis
    by simp
qed

theorem vibratoDelay_has_no_effect_witness:
  "p_vibratoDelay (DuoSynth example_ctx (Obj [(''vibratoDelay'', Num 7)])) = Num 7 \<and>
   on_result observable
     (run example_ctx
        [(0, Op_triggerAttackRelease (Num 440) (Num 0.5) Undefined (Num 1)), (2, Op_dispose)]
        (DuoSynth example_ctx (Obj [(''vibratoDelay'', Num 7)]))) =
   on_result observable
     (run example_ctx
        [(0, Op_triggerAttackRelease (Num 440) (Num 0.5) Undefined (Num 1)), (2, Op_dispose)]
        (DuoSynth example_ctx Undefined))"
proof -
  have a: "is_options (Obj [(''vibratoDelay'', Num 7)])" and b: "is_options Undefined"
    by (simp_all add: is_options_def)
  have "\<forall>k. k \<noteq> ''vibratoDelay'' \<longrightarrow> get (Obj [(''vibratoDelay'', Num 7)]) k = get Undefined k"
    by simp
  note inst = vibratoDelay_has_no_effect [OF a b this, of example_ctx example_ctx
      "[(0, Op_triggerAttackRelease (Num 440) (Num 0.5) Undefined (Num 1)), (2, Op_dispose)]"]
  have "p_vibratoDelay (DuoSynth example_ctx (Obj [(''vibratoDelay'', Num 7)])) = Num 7"
    using inst [THEN conjunct1] by (simp add: toSeconds_Num)
  with inst [THEN conjunct2] show ?thesis
    by blast
qed

end
